theory Spec2Isabelle
  imports Main "HOL-Library.Word"
begin

unbundle bit_operations_syntax

section \<open>Data model (include/HD108\_lld.h)\<close>

text \<open>
  The driver targets the ESP32: \<open>uint8_t\<close>, \<open>uint16_t\<close> and \<open>uint32_t\<close> are
  words of that width, \<open>unsigned long\<close>, \<open>size_t\<close> and pointers are 32 bits wide,
  memory is little endian and the compiler allocates bit-fields from the least
  significant bit of their storage unit upwards.
\<close>

type_synonym u8 = "8 word"
type_synonym u16 = "16 word"
type_synonym u32 = "32 word"

definition HD108_LLD_MIN_COUNT :: u32 where
  "HD108_LLD_MIN_COUNT = 1"

definition HD108_LLD_MAX_COUNT :: u32 where
  "HD108_LLD_MAX_COUNT = 1024"

definition HD108_LLD_MAX_SPI_SPEED :: u32 where
  "HD108_LLD_MAX_SPI_SPEED = 40000000"

text \<open>\<open>HD108_LLD_NUM_OF_0S\<close> of HD108\_lld.c: the zero bytes that open a transaction.\<close>

definition HD108_LLD_NUM_OF_0S :: u32 where
  "HD108_LLD_NUM_OF_0S = 16"

datatype hd108_status_t =
    HD108_LLD_OK
  | HD108_LLD_ERROR_UNKNOWN
  | HD108_LLD_ERROR_INVALID
  | HD108_LLD_ERROR_SPI_IN_USE
  | HD108_LLD_ERROR_NO_DMA
  | HD108_LLD_ERROR_NO_MEMORY
  | HD108_LLD_ERROR_NO_CS
  | HD108_LLD_ERROR_LENGTH
  | HD108_LLD_ERROR_INDEX
  | HD108_LLD_ERROR_DATA_RATE

datatype hd108_update_frequency_hz_t =
    HD108_LLD_UPDATE_1HZ
  | HD108_LLD_UPDATE_2HZ
  | HD108_LLD_UPDATE_5HZ
  | HD108_LLD_UPDATE_10HZ
  | HD108_LLD_UPDATE_20HZ
  | HD108_LLD_UPDATE_24HZ
  | HD108_LLD_UPDATE_25HZ
  | HD108_LLD_UPDATE_30HZ
  | HD108_LLD_UPDATE_50HZ
  | HD108_LLD_UPDATE_60HZ
  | HD108_LLD_UPDATE_100HZ
  | HD108_LLD_UPDATE_120HZ

text \<open>The integer value of each enumerator, as the enum declares it.\<close>

fun freq_value :: "hd108_update_frequency_hz_t \<Rightarrow> u32" where
  "freq_value HD108_LLD_UPDATE_1HZ = 1"
| "freq_value HD108_LLD_UPDATE_2HZ = 2"
| "freq_value HD108_LLD_UPDATE_5HZ = 5"
| "freq_value HD108_LLD_UPDATE_10HZ = 10"
| "freq_value HD108_LLD_UPDATE_20HZ = 20"
| "freq_value HD108_LLD_UPDATE_24HZ = 24"
| "freq_value HD108_LLD_UPDATE_25HZ = 25"
| "freq_value HD108_LLD_UPDATE_30HZ = 30"
| "freq_value HD108_LLD_UPDATE_50HZ = 50"
| "freq_value HD108_LLD_UPDATE_60HZ = 60"
| "freq_value HD108_LLD_UPDATE_100HZ = 100"
| "freq_value HD108_LLD_UPDATE_120HZ = 120"

type_synonym hd108_color_t = u16
type_synonym hd108_current_t = u16

text \<open>
  \<open>hd108_pixel_t\<close> is four 16-bit units. The first one, \<open>cl_unit\<close>, is the storage
  unit of the bit-fields \<open>cl_blue:5\<close>, \<open>cl_green:5\<close>, \<open>cl_red:5\<close> and the unnamed
  one-bit field; the members are read out of it below.
\<close>

record hd108_pixel_t =
  cl_unit :: hd108_current_t
  red :: hd108_color_t
  green :: hd108_color_t
  blue :: hd108_color_t

definition cl_blue :: "hd108_pixel_t \<Rightarrow> hd108_current_t" where
  "cl_blue p = take_bit 5 (cl_unit p)"

definition cl_green :: "hd108_pixel_t \<Rightarrow> hd108_current_t" where
  "cl_green p = take_bit 5 (drop_bit 5 (cl_unit p))"

definition cl_red :: "hd108_pixel_t \<Rightarrow> hd108_current_t" where
  "cl_red p = take_bit 5 (drop_bit 10 (cl_unit p))"

text \<open>The unnamed member \<open>hd108_current_t :1\<close>, the last bit of the unit.\<close>

definition restricted :: "hd108_pixel_t \<Rightarrow> bool" where
  "restricted p = bit (cl_unit p) 15"

definition sizeof_hd108_pixel_t :: u32 where
  "sizeof_hd108_pixel_t = 8"

text \<open>
  The object representation of a pixel, which \<open>(const uint8_t *)src\<close> reads: each
  unit with its low byte first.
\<close>

definition pixel_raw :: "hd108_pixel_t \<Rightarrow> u8 list" where
  "pixel_raw p =
     [ucast (cl_unit p), ucast (drop_bit 8 (cl_unit p)),
      ucast (red p), ucast (drop_bit 8 (red p)),
      ucast (green p), ucast (drop_bit 8 (green p)),
      ucast (blue p), ucast (drop_bit 8 (blue p))]"

type_synonym callback_update = u32

text \<open>A function pointer is its address; the null pointer is address 0.\<close>

definition NULL :: u32 where
  "NULL = 0"

record hd108_configuration_t =
  spi_host :: nat
  spi_speed_hz :: u32
  pin_mosi :: u8
  pin_clk :: u8
  count :: u16
  frequency_hz :: hd108_update_frequency_hz_t
  update_function :: callback_update

section \<open>Private types (src/HD108\_lld.c)\<close>

text \<open>
  \<open>hd108_pixel_data_t\<close>: fifteen reserved bits, then \<open>bit_start\<close>. A pointer to a
  pixel cast to this type views the pixel's first unit.
\<close>

record hd108_pixel_data_t =
  reserved15 :: hd108_current_t
  bit_start :: bool

definition pixel_data_of_unit :: "hd108_current_t \<Rightarrow> hd108_pixel_data_t" where
  "pixel_data_of_unit w = \<lparr>reserved15 = take_bit 15 w, bit_start = bit w 15\<rparr>"

definition unit_of_pixel_data :: "hd108_pixel_data_t \<Rightarrow> hd108_current_t" where
  "unit_of_pixel_data d = take_bit 15 (reserved15 d) OR push_bit 15 (of_bool (bit_start d))"

text \<open>
  Of \<open>spi_transaction_t\<close> the driver sets the transmit buffer and its length in
  bits. The buffer is the list of its bytes.
\<close>

record spi_transaction_t =
  tx_buffer :: "u8 list"
  length_bits :: u32

record hd108_ctx_t =
  device_handle :: nat
  transaction :: spi_transaction_t
  callback :: callback_update
  strip_length :: u16

section \<open>Pixel update\<close>

text \<open>
  \<open>hd108_lld_copy_pixel\<close>: \<open>src_raw\<close> is the source pixel's bytes, \<open>mem\<close> the memory
  the destination pointer points into and \<open>dst\<close> the destination's offset there.
\<close>

definition hd108_lld_copy_pixel :: "u8 list \<Rightarrow> u8 list \<Rightarrow> nat \<Rightarrow> u8 list" where
  "hd108_lld_copy_pixel src_raw mem dst =
     mem[dst + 0 := src_raw ! 1,
         dst + 1 := src_raw ! 0,
         dst + 2 := src_raw ! 3,
         dst + 3 := src_raw ! 2,
         dst + 4 := src_raw ! 5,
         dst + 5 := src_raw ! 4,
         dst + 6 := src_raw ! 7,
         dst + 7 := src_raw ! 6]"

text \<open>
  The offset \<open>HD108_LLD_NUM_OF_0S + sizeof(hd108_pixel_t) * index\<close> that
  \<open>hd108_lld_set_pixel\<close> adds to the buffer's address, in 32-bit arithmetic.
\<close>

definition slot_offset :: "u16 \<Rightarrow> nat" where
  "slot_offset index = unat (HD108_LLD_NUM_OF_0S + sizeof_hd108_pixel_t * ucast index)"

text \<open>
  \<open>hd108_lld_set_pixel\<close> returns its status, the context and the caller's pixel,
  both of which it reaches through pointers and may change.
\<close>

definition hd108_lld_set_pixel ::
  "hd108_ctx_t \<Rightarrow> u16 \<Rightarrow> hd108_pixel_t \<Rightarrow> hd108_status_t \<times> hd108_ctx_t \<times> hd108_pixel_t" where
  "hd108_lld_set_pixel ctx index pixel =
     (if index \<ge> strip_length ctx then (HD108_LLD_ERROR_INDEX, ctx, pixel)
      else
        let pixel_data = pixel_data_of_unit (cl_unit pixel);
            pixel_data = pixel_data\<lparr>bit_start := True\<rparr>;
            pixel = pixel\<lparr>cl_unit := unit_of_pixel_data pixel_data\<rparr>;
            dst = tx_buffer (transaction ctx);
            dst = hd108_lld_copy_pixel (pixel_raw pixel) dst (slot_offset index)
        in (HD108_LLD_OK, ctx\<lparr>transaction := (transaction ctx)\<lparr>tx_buffer := dst\<rparr>\<rparr>, pixel))"

section \<open>Initialisation\<close>

text \<open>
  \<open>hd108_get_update_period_time\<close>: the timer period in microseconds. The division
  is the unsigned one of C, which truncates.
\<close>

definition hd108_get_update_period_time :: "hd108_update_frequency_hz_t \<Rightarrow> u32" where
  "hd108_get_update_period_time freq_hz = 1000000 div freq_value freq_hz"

text \<open>
  The error codes of ESP-IDF that the driver tells apart; every other code is
  \<open>ESP_ERR_OTHER\<close> with its number.
\<close>

datatype esp_err_t =
    ESP_OK
  | ESP_ERR_NO_MEM
  | ESP_ERR_INVALID_ARG
  | ESP_ERR_INVALID_STATE
  | ESP_ERR_NOT_FOUND
  | ESP_ERR_OTHER int

text \<open>
  The bus driver, the timer service and the allocator are outside the driver. One
  run of \<open>hd108_lld_init\<close> calls each of them at most once, so the environment of a
  run is what each call returns.
\<close>

record hd108_env =
  calloc_ok :: bool
  heap_caps_malloc_ok :: bool
  spi_bus_initialize_ret :: esp_err_t
  spi_bus_add_device_ret :: esp_err_t
  spi_bus_add_device_handle :: nat
  esp_timer_create_ret :: esp_err_t
  esp_timer_start_periodic_ret :: esp_err_t

text \<open>The calls a run makes to its environment, in order.\<close>

datatype hd108_call =
    Calloc_ctx
  | Heap_caps_malloc u16
  | Free_buffer
  | Free_ctx
  | Spi_bus_initialize
  | Spi_bus_add_device
  | Esp_timer_create
  | Esp_timer_start_periodic u32
  | Esp_timer_delete

definition hd108_lld_start_timer_for_ctx ::
  "hd108_env \<Rightarrow> hd108_update_frequency_hz_t \<Rightarrow> esp_err_t \<times> hd108_call list" where
  "hd108_lld_start_timer_for_ctx env freq =
     (let err = esp_timer_create_ret env in
      if ESP_OK \<noteq> err then (err, [Esp_timer_create])
      else
        let err = esp_timer_start_periodic_ret env;
            started = [Esp_timer_create,
                       Esp_timer_start_periodic (hd108_get_update_period_time freq)]
        in if ESP_OK \<noteq> err then (err, started @ [Esp_timer_delete])
           else (err, started))"

text \<open>
  The three \<open>switch\<close> statements of \<open>hd108_lld_init\<close>, as the status each error
  code leads to. \<open>ESP_OK\<close> is the case that breaks out and goes on.
\<close>

fun spi_bus_initialize_status :: "esp_err_t \<Rightarrow> hd108_status_t" where
  "spi_bus_initialize_status ESP_ERR_INVALID_ARG = HD108_LLD_ERROR_INVALID"
| "spi_bus_initialize_status ESP_ERR_INVALID_STATE = HD108_LLD_ERROR_SPI_IN_USE"
| "spi_bus_initialize_status ESP_ERR_NOT_FOUND = HD108_LLD_ERROR_NO_DMA"
| "spi_bus_initialize_status ESP_ERR_NO_MEM = HD108_LLD_ERROR_NO_MEMORY"
| "spi_bus_initialize_status ESP_OK = HD108_LLD_OK"
| "spi_bus_initialize_status (ESP_ERR_OTHER e) = HD108_LLD_ERROR_UNKNOWN"

fun spi_bus_add_device_status :: "esp_err_t \<Rightarrow> hd108_status_t" where
  "spi_bus_add_device_status ESP_ERR_INVALID_ARG = HD108_LLD_ERROR_INVALID"
| "spi_bus_add_device_status ESP_ERR_NOT_FOUND = HD108_LLD_ERROR_NO_CS"
| "spi_bus_add_device_status ESP_ERR_NO_MEM = HD108_LLD_ERROR_NO_MEMORY"
| "spi_bus_add_device_status ESP_OK = HD108_LLD_OK"
| "spi_bus_add_device_status ESP_ERR_INVALID_STATE = HD108_LLD_ERROR_UNKNOWN"
| "spi_bus_add_device_status (ESP_ERR_OTHER e) = HD108_LLD_ERROR_UNKNOWN"

fun start_timer_status :: "esp_err_t \<Rightarrow> hd108_status_t" where
  "start_timer_status ESP_ERR_INVALID_ARG = HD108_LLD_ERROR_INVALID"
| "start_timer_status ESP_ERR_INVALID_STATE = HD108_LLD_ERROR_SPI_IN_USE"
| "start_timer_status ESP_ERR_NO_MEM = HD108_LLD_ERROR_NO_MEMORY"
| "start_timer_status ESP_OK = HD108_LLD_OK"
| "start_timer_status ESP_ERR_NOT_FOUND = HD108_LLD_ERROR_UNKNOWN"
| "start_timer_status (ESP_ERR_OTHER e) = HD108_LLD_ERROR_UNKNOWN"

text \<open>
  What a run of \<open>hd108_lld_init\<close> leaves: the status returned, the context stored
  through \<open>ctx_out\<close> (\<open>None\<close> when nothing is stored) and the calls made.
\<close>

record hd108_init_result =
  status :: hd108_status_t
  ctx_out :: "hd108_ctx_t option"
  calls :: "hd108_call list"

definition init_fail :: "hd108_status_t \<Rightarrow> hd108_call list \<Rightarrow> hd108_init_result" where
  "init_fail st cs = \<lparr>status = st, ctx_out = None, calls = cs\<rparr>"

definition hd108_lld_init :: "hd108_configuration_t \<Rightarrow> hd108_env \<Rightarrow> hd108_init_result" where
  "hd108_lld_init cfg env =
     (if HD108_LLD_MIN_COUNT > ucast (count cfg) \<or> HD108_LLD_MAX_COUNT < ucast (count cfg)
      then init_fail HD108_LLD_ERROR_LENGTH []
      else if HD108_LLD_MAX_SPI_SPEED < spi_speed_hz cfg
      then init_fail HD108_LLD_ERROR_INVALID []
      else if NULL = update_function cfg
      then init_fail HD108_LLD_ERROR_INVALID []
      else
        let buffer_len =
              (ucast (HD108_LLD_NUM_OF_0S + ucast (count cfg) * sizeof_hd108_pixel_t) :: u16);
            rate = (ucast buffer_len * 8 * freq_value (frequency_hz cfg) * 2 :: u32)
        in
        if rate > spi_speed_hz cfg
        then init_fail HD108_LLD_ERROR_DATA_RATE []
        else if \<not> calloc_ok env
        then init_fail HD108_LLD_ERROR_NO_MEMORY [Calloc_ctx]
        else if \<not> heap_caps_malloc_ok env
        then init_fail HD108_LLD_ERROR_NO_MEMORY
               [Calloc_ctx, Heap_caps_malloc buffer_len, Free_ctx]
        else
          let buffer = replicate (unat buffer_len) (0 :: u8);
              ctx = \<lparr>device_handle = 0,
                     transaction = \<lparr>tx_buffer = buffer, length_bits = 8 * ucast buffer_len\<rparr>,
                     callback = update_function cfg,
                     strip_length = count cfg\<rparr>;
              cs = [Calloc_ctx, Heap_caps_malloc buffer_len, Spi_bus_initialize];
              err = spi_bus_initialize_ret env
          in
          if err \<noteq> ESP_OK
          then init_fail (spi_bus_initialize_status err) (cs @ [Free_buffer, Free_ctx])
          else
            let cs = cs @ [Spi_bus_add_device];
                ctx = ctx\<lparr>device_handle := spi_bus_add_device_handle env\<rparr>;
                err = spi_bus_add_device_ret env
            in
            if err \<noteq> ESP_OK
            then init_fail (spi_bus_add_device_status err) (cs @ [Free_buffer, Free_ctx])
            else
              let (err, timer_cs) =
                    hd108_lld_start_timer_for_ctx env (frequency_hz cfg);
                  cs = cs @ timer_cs
              in
              if err \<noteq> ESP_OK
              then init_fail (start_timer_status err) (cs @ [Free_buffer, Free_ctx])
              else \<lparr>status = HD108_LLD_OK, ctx_out = Some ctx, calls = cs\<rparr>)"

section \<open>Contexts in use\<close>

text \<open>
  The buffer of a context holds the leading zero bytes and one slot for each LED
  of the strip. \<open>hd108_lld_init\<close> builds its context so, and the driver never
  changes the buffer's length.
\<close>

definition buffer_fits :: "hd108_ctx_t \<Rightarrow> bool" where
  "buffer_fits ctx \<longleftrightarrow>
     length (tx_buffer (transaction ctx)) =
       unat HD108_LLD_NUM_OF_0S + unat sizeof_hd108_pixel_t * unat (strip_length ctx)"

text \<open>A caller's sequence of updates, whatever each one returns.\<close>

fun set_pixels :: "hd108_ctx_t \<Rightarrow> (u16 \<times> hd108_pixel_t) list \<Rightarrow> hd108_ctx_t" where
  "set_pixels ctx [] = ctx"
| "set_pixels ctx ((index, pixel) # rest) =
     set_pixels (fst (snd (hd108_lld_set_pixel ctx index pixel))) rest"

text \<open>The eight bytes of the slot of LED \<open>index\<close> in a buffer.\<close>

definition slot_bytes :: "u8 list \<Rightarrow> u16 \<Rightarrow> u8 list" where
  "slot_bytes buf index = take 8 (drop (slot_offset index) buf)"

text \<open>A 16-bit word as it goes onto the wire, most significant byte first.\<close>

definition msb_first :: "u16 \<Rightarrow> u8 list" where
  "msb_first w = [ucast (drop_bit 8 w), ucast w]"

section \<open>Sample inputs\<close>

text \<open>
  A pixel with current levels red 3, green 7, blue 15 and the restricted bit
  clear, and the same pixel with the restricted bit already set.
\<close>

definition sample_pixel :: hd108_pixel_t where
  "sample_pixel = \<lparr>cl_unit = 0x0CEF, red = 0x1234, green = 0x5678, blue = 0x9ABC\<rparr>"

definition sample_pixel_started :: hd108_pixel_t where
  "sample_pixel_started = \<lparr>cl_unit = 0x8CEF, red = 0x1234, green = 0x5678, blue = 0x9ABC\<rparr>"

text \<open>A context of a strip of two LEDs whose slots hold the bytes 1 to 16.\<close>

definition sample_ctx :: hd108_ctx_t where
  "sample_ctx =
     \<lparr>device_handle = 7,
      transaction =
        \<lparr>tx_buffer = replicate 16 0 @
                      [1, 2, 3, 4, 5, 6, 7, 8, 9, 10, 11, 12, 13, 14, 15, 16],
         length_bits = 256\<rparr>,
      callback = 0x40080000,
      strip_length = 2\<rparr>"

text \<open>That context once \<open>sample_pixel\<close> has been written to LED 1.\<close>

definition sample_ctx_written :: hd108_ctx_t where
  "sample_ctx_written =
     sample_ctx\<lparr>transaction :=
       \<lparr>tx_buffer = replicate 16 0 @
          [1, 2, 3, 4, 5, 6, 7, 8, 0x8C, 0xEF, 0x12, 0x34, 0x56, 0x78, 0x9A, 0xBC],
        length_bits = 256\<rparr>\<rparr>"

definition sample_cfg :: hd108_configuration_t where
  "sample_cfg =
     \<lparr>spi_host = 1, spi_speed_hz = 10000000, pin_mosi = 23, pin_clk = 18, count = 2,
      frequency_hz = HD108_LLD_UPDATE_60HZ, update_function = 0x40080000\<rparr>"

text \<open>An environment where every call succeeds.\<close>

definition sample_env :: hd108_env where
  "sample_env =
     \<lparr>calloc_ok = True, heap_caps_malloc_ok = True, spi_bus_initialize_ret = ESP_OK,
      spi_bus_add_device_ret = ESP_OK, spi_bus_add_device_handle = 7,
      esp_timer_create_ret = ESP_OK, esp_timer_start_periodic_ret = ESP_OK\<rparr>"

text \<open>
  A configuration that fails every check at once: too long a strip, too fast a
  bus and no callback.
\<close>

definition oversize_cfg :: hd108_configuration_t where
  "oversize_cfg =
     \<lparr>spi_host = 1, spi_speed_hz = 50000000, pin_mosi = 23, pin_clk = 18, count = 1025,
      frequency_hz = HD108_LLD_UPDATE_120HZ, update_function = NULL\<rparr>"

text \<open>The longest strip at 120 Hz on a bus 1 Hz too slow for it.\<close>

definition slow_cfg :: hd108_configuration_t where
  "slow_cfg =
     \<lparr>spi_host = 1, spi_speed_hz = 15759359, pin_mosi = 23, pin_clk = 18, count = 1024,
      frequency_hz = HD108_LLD_UPDATE_120HZ, update_function = 0x40080000\<rparr>"

section \<open>Bits of the first unit\<close>

lemma bit_start_mask: "bit (0x8000 :: u16) n \<longleftrightarrow> n = 15"
proof -
  have "(0x8000 :: u16) = 2 ^ 15" by simp
  then show ?thesis by (simp only: bit_exp_iff) auto
qed

lemma unit_start:
  "unit_of_pixel_data ((pixel_data_of_unit w)\<lparr>bit_start := True\<rparr>) = w OR 0x8000"
proof -
  have "take_bit 15 (take_bit 15 w) OR 0x8000 = w OR (0x8000 :: u16)"
    by (rule bit_word_eqI)
       (simp only: bit_or_iff bit_take_bit_iff bit_start_mask, auto)
  then show ?thesis
    by (simp add: unit_of_pixel_data_def pixel_data_of_unit_def)
qed

lemma cl_blue_start: "take_bit 5 (w OR 0x8000 :: u16) = take_bit 5 w"
  by (rule bit_word_eqI) (simp only: bit_or_iff bit_take_bit_iff bit_start_mask, auto)

lemma cl_green_start:
  "take_bit 5 (drop_bit 5 (w OR 0x8000 :: u16)) = take_bit 5 (drop_bit 5 w)"
  by (rule bit_word_eqI)
     (simp only: bit_or_iff bit_take_bit_iff bit_drop_bit_eq bit_start_mask o_def, auto)

lemma cl_red_start:
  "take_bit 5 (drop_bit 10 (w OR 0x8000 :: u16)) = take_bit 5 (drop_bit 10 w)"
  by (rule bit_word_eqI)
     (simp only: bit_or_iff bit_take_bit_iff bit_drop_bit_eq bit_start_mask o_def, auto)

text \<open>Putting the three current levels back under the start bit gives the unit.\<close>

lemma word0_fields:
  "(0x8000 :: u16) OR push_bit 10 (take_bit 5 (drop_bit 10 w))
      OR push_bit 5 (take_bit 5 (drop_bit 5 w)) OR take_bit 5 w = w OR 0x8000"
proof (rule bit_word_eqI)
  fix n :: nat
  assume "n < LENGTH(16)"
  then have n: "n < 16" by simp
  consider "n < 5" | "5 \<le> n" "n < 10" | "10 \<le> n" "n < 15" | "n = 15"
    using n by linarith
  then show "bit ((0x8000 :: u16) OR push_bit 10 (take_bit 5 (drop_bit 10 w))
      OR push_bit 5 (take_bit 5 (drop_bit 5 w)) OR take_bit 5 w) n = bit (w OR 0x8000) n"
    by cases
      (simp_all only: bit_or_iff bit_take_bit_iff bit_drop_bit_eq bit_push_bit_iff
         bit_start_mask o_def possible_bit_word, auto)
qed

lemma start_bit_high_byte: "bit (ucast (drop_bit 8 (w OR 0x8000 :: u16)) :: u8) 7"
  by (simp only: bit_ucast_iff bit_drop_bit_eq bit_or_iff bit_start_mask o_def
        possible_bit_word, simp)

section \<open>Offsets and the copy\<close>

lemma unat_u16_bound: "unat (w :: u16) < 65536"
  using unsigned_less [of w, where 'a = nat] by simp

lemma unat_ucast_u16: "unat (ucast (w :: u16) :: u32) = unat w"
proof -
  have "unat w < 2 ^ 32" using unat_u16_bound [of w] by simp
  then show ?thesis
    by (simp add: unsigned_ucast_eq take_bit_nat_eq_self_iff)
qed

text \<open>The 32-bit sum never wraps: a 16-bit index keeps it below \<open>2 ^ 20\<close>.\<close>

lemma slot_offset_eq: "slot_offset index = 16 + 8 * unat index"
  using unat_u16_bound [of index]
  unfolding slot_offset_def HD108_LLD_NUM_OF_0S_def sizeof_hd108_pixel_t_def
  by (simp add: unat_word_ariths unat_ucast_u16)

lemma copy_pixel_length: "length (hd108_lld_copy_pixel src mem dst) = length mem"
  by (simp add: hd108_lld_copy_pixel_def)

lemma copy_pixel_outside:
  "j < dst \<or> dst + 8 \<le> j \<Longrightarrow> hd108_lld_copy_pixel src mem dst ! j = mem ! j"
  by (auto simp add: hd108_lld_copy_pixel_def)

lemma copy_pixel_take:
  "n \<le> dst \<Longrightarrow> take n (hd108_lld_copy_pixel src mem dst) = take n mem"
  by (simp add: hd108_lld_copy_pixel_def)

lemma copy_pixel_slot:
  assumes "dst + 8 \<le> length mem"
  shows "take 8 (drop dst (hd108_lld_copy_pixel src mem dst)) =
           [src ! 1, src ! 0, src ! 3, src ! 2, src ! 5, src ! 4, src ! 7, src ! 6]"
proof (rule nth_equalityI)
  show "length (take 8 (drop dst (hd108_lld_copy_pixel src mem dst))) =
          length [src ! 1, src ! 0, src ! 3, src ! 2, src ! 5, src ! 4, src ! 7, src ! 6]"
    using assms by (simp add: copy_pixel_length)
next
  fix i
  assume "i < length (take 8 (drop dst (hd108_lld_copy_pixel src mem dst)))"
  then have "i \<in> {0, 1, 2, 3, 4, 5, 6, 7}" by auto
  then show "take 8 (drop dst (hd108_lld_copy_pixel src mem dst)) ! i =
          [src ! 1, src ! 0, src ! 3, src ! 2, src ! 5, src ! 4, src ! 7, src ! 6] ! i"
    using assms by (auto simp add: hd108_lld_copy_pixel_def)
qed

section \<open>What one update does\<close>

lemma set_pixel_out_of_range:
  "strip_length ctx \<le> index \<Longrightarrow>
     hd108_lld_set_pixel ctx index pixel = (HD108_LLD_ERROR_INDEX, ctx, pixel)"
  by (simp add: hd108_lld_set_pixel_def)

lemma set_pixel_in_range:
  "index < strip_length ctx \<Longrightarrow>
     hd108_lld_set_pixel ctx index pixel =
       (HD108_LLD_OK,
        ctx\<lparr>transaction := (transaction ctx)\<lparr>tx_buffer :=
          hd108_lld_copy_pixel (pixel_raw (pixel\<lparr>cl_unit := cl_unit pixel OR 0x8000\<rparr>))
            (tx_buffer (transaction ctx)) (slot_offset index)\<rparr>\<rparr>,
        pixel\<lparr>cl_unit := cl_unit pixel OR 0x8000\<rparr>)"
  by (simp add: hd108_lld_set_pixel_def Let_def unit_start not_le)

lemma set_pixel_ok_iff:
  "fst (hd108_lld_set_pixel ctx index pixel) = HD108_LLD_OK \<longleftrightarrow> index < strip_length ctx"
  by (cases "index < strip_length ctx")
     (simp_all add: set_pixel_in_range set_pixel_out_of_range not_less)

lemma slot_in_buffer:
  assumes "buffer_fits ctx" and "index < strip_length ctx"
  shows "slot_offset index + 8 \<le> length (tx_buffer (transaction ctx))"
proof -
  have "unat index < unat (strip_length ctx)"
    using assms(2) by (simp add: word_less_nat_alt)
  then have "8 * unat index + 8 \<le> 8 * unat (strip_length ctx)" by simp
  then show ?thesis
    using assms(1)
    by (simp add: buffer_fits_def slot_offset_eq HD108_LLD_NUM_OF_0S_def
          sizeof_hd108_pixel_t_def)
qed

lemma set_pixel_buffer_fits:
  "buffer_fits ctx \<Longrightarrow> buffer_fits (fst (snd (hd108_lld_set_pixel ctx index pixel)))"
  by (cases "index < strip_length ctx")
     (simp_all add: set_pixel_in_range set_pixel_out_of_range not_less buffer_fits_def
        copy_pixel_length)

lemma set_pixel_padding:
  "take 16 (tx_buffer (transaction (fst (snd (hd108_lld_set_pixel ctx index pixel))))) =
     take 16 (tx_buffer (transaction ctx))"
  by (cases "index < strip_length ctx")
     (simp_all add: set_pixel_in_range set_pixel_out_of_range not_less copy_pixel_take
        slot_offset_eq)

lemma set_pixels_padding:
  "take 16 (tx_buffer (transaction (set_pixels ctx ups))) =
     take 16 (tx_buffer (transaction ctx))"
  by (induction ctx ups rule: set_pixels.induct) (simp_all add: set_pixel_padding)

lemma set_pixels_buffer_fits: "buffer_fits ctx \<Longrightarrow> buffer_fits (set_pixels ctx ups)"
  by (induction ctx ups rule: set_pixels.induct) (simp_all add: set_pixel_buffer_fits)

section \<open>The checks of the initialisation\<close>

lemma length_check_iff:
  "(HD108_LLD_MIN_COUNT > ucast c \<or> HD108_LLD_MAX_COUNT < ucast c) \<longleftrightarrow>
     (unat c = 0 \<or> 1024 < unat c)" for c :: u16
  by (auto simp add: HD108_LLD_MIN_COUNT_def HD108_LLD_MAX_COUNT_def word_less_nat_alt
        unat_ucast_u16)

lemma speed_check_iff: "HD108_LLD_MAX_SPI_SPEED < s \<longleftrightarrow> 40000000 < unat s"
  by (simp add: HD108_LLD_MAX_SPI_SPEED_def word_less_nat_alt)

text \<open>For an accepted strip length the 16-bit \<open>buffer_len\<close> holds the whole sum.\<close>

lemma buffer_len_unat:
  fixes c :: u16
  assumes "unat c \<le> 1024"
  shows "unat (ucast (HD108_LLD_NUM_OF_0S + ucast c * sizeof_hd108_pixel_t) :: u16) =
           16 + 8 * unat c"
proof -
  have "unat (HD108_LLD_NUM_OF_0S + ucast c * sizeof_hd108_pixel_t) = 16 + 8 * unat c"
    using assms
    by (simp add: HD108_LLD_NUM_OF_0S_def sizeof_hd108_pixel_t_def unat_word_ariths
          unat_ucast_u16)
  moreover have "16 + 8 * unat c < 2 ^ 16" using assms by simp
  ultimately show ?thesis
    by (simp add: unsigned_ucast_eq take_bit_nat_eq_self_iff)
qed

lemma freq_value_le: "unat (freq_value f) \<le> 120"
  by (cases f) simp_all

text \<open>The 32-bit product \<open>rate\<close> does not wrap either.\<close>

lemma rate_unat:
  fixes b :: u16
  assumes "unat b \<le> 8208"
  shows "unat (ucast b * 8 * freq_value f * 2 :: u32) = unat b * 8 * unat (freq_value f) * 2"
proof -
  have "unat b * 8 * unat (freq_value f) \<le> 8208 * 8 * 120"
    using assms freq_value_le [of f] by (intro mult_le_mono) simp_all
  then have small: "unat b * 8 * unat (freq_value f) * 2 < 2 ^ 32" by simp
  have "unat (ucast b * 8 * freq_value f * 2 :: u32) =
          (unat b * 8 * unat (freq_value f) * 2) mod 2 ^ 32"
    by (simp add: unat_word_ariths unat_ucast_u16 mod_simps)
  then show ?thesis
    using small by simp
qed

lemma status_not_data_rate:
  "spi_bus_initialize_status e \<noteq> HD108_LLD_ERROR_DATA_RATE"
  "spi_bus_add_device_status e \<noteq> HD108_LLD_ERROR_DATA_RATE"
  "start_timer_status e \<noteq> HD108_LLD_ERROR_DATA_RATE"
  by (cases e; simp)+

lemma status_ok_iff:
  "spi_bus_initialize_status e = HD108_LLD_OK \<longleftrightarrow> e = ESP_OK"
  "spi_bus_add_device_status e = HD108_LLD_OK \<longleftrightarrow> e = ESP_OK"
  "start_timer_status e = HD108_LLD_OK \<longleftrightarrow> e = ESP_OK"
  by (cases e; simp)+

text \<open>Only the data-rate check returns the data-rate error.\<close>

lemma init_data_rate_iff:
  "status (hd108_lld_init cfg env) = HD108_LLD_ERROR_DATA_RATE \<longleftrightarrow>
     \<not> (HD108_LLD_MIN_COUNT > ucast (count cfg) \<or> HD108_LLD_MAX_COUNT < ucast (count cfg)) \<and>
     \<not> HD108_LLD_MAX_SPI_SPEED < spi_speed_hz cfg \<and>
     NULL \<noteq> update_function cfg \<and>
     (ucast (ucast (HD108_LLD_NUM_OF_0S + ucast (count cfg) * sizeof_hd108_pixel_t) :: u16)
        * 8 * freq_value (frequency_hz cfg) * 2 :: u32) > spi_speed_hz cfg"
  unfolding hd108_lld_init_def Let_def init_fail_def
  by (simp add: status_not_data_rate split: prod.splits)

section \<open>What a run of the initialisation leaves\<close>

lemma start_timer_periods:
  "hd108_lld_start_timer_for_ctx env f = (err, cs) \<Longrightarrow>
     Esp_timer_start_periodic t \<in> set cs \<Longrightarrow> t = hd108_get_update_period_time f"
  by (auto simp add: hd108_lld_start_timer_for_ctx_def Let_def split: if_splits)

lemma init_ok_result:
  assumes "status (hd108_lld_init cfg env) = HD108_LLD_OK"
  shows "hd108_lld_init cfg env =
     \<lparr>status = HD108_LLD_OK,
      ctx_out = Some
        \<lparr>device_handle = spi_bus_add_device_handle env,
         transaction =
           \<lparr>tx_buffer = replicate (16 + 8 * unat (count cfg)) 0,
            length_bits = 8 * ucast (ucast (HD108_LLD_NUM_OF_0S +
                ucast (count cfg) * sizeof_hd108_pixel_t) :: u16)\<rparr>,
         callback = update_function cfg,
         strip_length = count cfg\<rparr>,
      calls = [Calloc_ctx,
               Heap_caps_malloc (ucast (HD108_LLD_NUM_OF_0S +
                 ucast (count cfg) * sizeof_hd108_pixel_t)),
               Spi_bus_initialize, Spi_bus_add_device, Esp_timer_create,
               Esp_timer_start_periodic (hd108_get_update_period_time (frequency_hz cfg))]\<rparr>"
proof -
  have len: "\<not> (unat (count cfg) = 0 \<or> 1024 < unat (count cfg))"
    using assms unfolding hd108_lld_init_def init_fail_def length_check_iff
    by (auto split: if_splits)
  then have bl:
    "unat (ucast (HD108_LLD_NUM_OF_0S + ucast (count cfg) * sizeof_hd108_pixel_t) :: u16)
       = 16 + 8 * unat (count cfg)"
    by (intro buffer_len_unat) simp
  show ?thesis
    using assms len unfolding hd108_lld_init_def Let_def init_fail_def length_check_iff
    by (auto simp add: bl status_ok_iff hd108_lld_start_timer_for_ctx_def Let_def
        split: if_splits prod.splits)
qed

lemma init_ctx_out:
  "ctx_out (hd108_lld_init cfg env) = Some ctx \<Longrightarrow>
     status (hd108_lld_init cfg env) = HD108_LLD_OK"
  unfolding hd108_lld_init_def Let_def init_fail_def
  by (auto split: if_splits prod.splits)

lemma init_timer_periods:
  "Esp_timer_start_periodic t \<in> set (calls (hd108_lld_init cfg env)) \<Longrightarrow>
     t = hd108_get_update_period_time (frequency_hz cfg)"
  unfolding hd108_lld_init_def Let_def init_fail_def
  by (auto split: if_splits prod.splits dest: start_timer_periods)

section \<open>The written slot\<close>

lemma set_pixel_slot:
  assumes "buffer_fits ctx" and "index < strip_length ctx"
  shows "slot_bytes (tx_buffer (transaction (fst (snd (hd108_lld_set_pixel ctx index pixel)))))
           index =
           msb_first (cl_unit pixel OR 0x8000) @ msb_first (red pixel) @
           msb_first (green pixel) @ msb_first (blue pixel)"
  using slot_in_buffer [OF assms]
  by (simp add: set_pixel_in_range [OF assms(2)] slot_bytes_def copy_pixel_slot pixel_raw_def
        msb_first_def)

lemma set_pixel_ok_D:
  "hd108_lld_set_pixel ctx index pixel = (HD108_LLD_OK, ctx', pixel') \<Longrightarrow>
     index < strip_length ctx \<and> ctx' = fst (snd (hd108_lld_set_pixel ctx index pixel)) \<and>
     pixel' = pixel\<lparr>cl_unit := cl_unit pixel OR 0x8000\<rparr>"
  by (cases "index < strip_length ctx")
     (auto simp add: set_pixel_in_range set_pixel_out_of_range not_less)

lemma sample_ctx_fits: "buffer_fits sample_ctx"
  by code_simp

lemma sample_run:
  "hd108_lld_set_pixel sample_ctx 1 sample_pixel =
     (HD108_LLD_OK, sample_ctx_written, sample_pixel_started)"
  by code_simp

text \<open>
  Claim C1. After a successful \<open>hd108_lld_set_pixel\<close> on a context whose buffer
  holds the strip, the eight bytes of the addressed slot are four 16-bit words,
  each with its most significant byte first: the word made of the start bit
  (bit 15, set), \<open>cl_red\<close> in bits 14 to 10, \<open>cl_green\<close> in bits 9 to 5 and
  \<open>cl_blue\<close> in bits 4 to 0, then the red, green and blue intensities. The start
  bit, the top bit of the slot's first byte, is set whatever the pixel's restricted
  bit was before the call.
\<close>

theorem set_pixel_wire_slot:
  assumes "buffer_fits ctx"
    and "hd108_lld_set_pixel ctx index pixel = (HD108_LLD_OK, ctx', pixel')"
  shows "slot_bytes (tx_buffer (transaction ctx')) index =
           msb_first (0x8000 OR push_bit 10 (cl_red pixel) OR push_bit 5 (cl_green pixel)
                        OR cl_blue pixel) @
           msb_first (red pixel) @ msb_first (green pixel) @ msb_first (blue pixel) \<and>
         bit (hd (slot_bytes (tx_buffer (transaction ctx')) index)) 7"
proof -
  from set_pixel_ok_D [OF assms(2)]
  have idx: "index < strip_length ctx"
    and ctx': "ctx' = fst (snd (hd108_lld_set_pixel ctx index pixel))" by simp_all
  have w0: "0x8000 OR push_bit 10 (cl_red pixel) OR push_bit 5 (cl_green pixel) OR cl_blue pixel
      = cl_unit pixel OR 0x8000"
    unfolding cl_red_def cl_green_def cl_blue_def by (rule word0_fields)
  have slot: "slot_bytes (tx_buffer (transaction ctx')) index =
           msb_first (cl_unit pixel OR 0x8000) @ msb_first (red pixel) @
           msb_first (green pixel) @ msb_first (blue pixel)"
    unfolding ctx' by (rule set_pixel_slot [OF assms(1) idx])
  have "hd (slot_bytes (tx_buffer (transaction ctx')) index) =
          ucast (drop_bit 8 (cl_unit pixel OR 0x8000))"
    by (simp only: slot msb_first_def append_Cons list.sel)
  then have "bit (hd (slot_bytes (tx_buffer (transaction ctx')) index)) 7"
    by (simp only: start_bit_high_byte)
  then show ?thesis
    by (simp only: w0 slot simp_thms)
qed

theorem set_pixel_wire_slot_witness:
  "buffer_fits sample_ctx \<and>
   hd108_lld_set_pixel sample_ctx 1 sample_pixel =
     (HD108_LLD_OK, sample_ctx_written, sample_pixel_started) \<and>
   slot_bytes (tx_buffer (transaction sample_ctx_written)) 1 =
     msb_first (0x8000 OR push_bit 10 (cl_red sample_pixel) OR push_bit 5 (cl_green sample_pixel)
                  OR cl_blue sample_pixel) @
     msb_first (red sample_pixel) @ msb_first (green sample_pixel) @
     msb_first (blue sample_pixel) \<and>
   bit (hd (slot_bytes (tx_buffer (transaction sample_ctx_written)) 1)) 7"
  using set_pixel_wire_slot [OF sample_ctx_fits sample_run] sample_ctx_fits sample_run
  by blast

text \<open>
  Claim C4. When the index is the strip length or more, \<open>hd108_lld_set_pixel\<close>
  returns the index error and leaves the context, so each byte of its buffer, and
  the pixel as they were.
\<close>

theorem set_pixel_index_error:
  assumes "strip_length ctx \<le> index"
  shows "hd108_lld_set_pixel ctx index pixel = (HD108_LLD_ERROR_INDEX, ctx, pixel) \<and>
         tx_buffer (transaction (fst (snd (hd108_lld_set_pixel ctx index pixel)))) =
           tx_buffer (transaction ctx)"
  using assms by (simp add: set_pixel_out_of_range)

theorem set_pixel_index_error_witness:
  "strip_length sample_ctx \<le> 2 \<and>
   hd108_lld_set_pixel sample_ctx 2 sample_pixel = (HD108_LLD_ERROR_INDEX, sample_ctx, sample_pixel) \<and>
   tx_buffer (transaction (fst (snd (hd108_lld_set_pixel sample_ctx 2 sample_pixel)))) =
     tx_buffer (transaction sample_ctx)"
proof -
  have le: "strip_length sample_ctx \<le> 2" by code_simp
  from set_pixel_index_error [OF le, of sample_pixel] le show ?thesis by blast
qed

text \<open>
  Claim C5. A successful \<open>hd108_lld_set_pixel\<close> for LED \<open>index\<close> writes only
  into the eight bytes from offset \<open>16 + 8 * index\<close> on: every byte at an offset
  \<open>j\<close> before or behind that slot is unchanged, the buffer keeps its length, the
  slot lies inside the buffer, and the offset computed in 32 bits is that number.
\<close>

theorem set_pixel_frame:
  assumes "buffer_fits ctx"
    and "hd108_lld_set_pixel ctx index pixel = (HD108_LLD_OK, ctx', pixel')"
    and "j < 16 + 8 * unat index \<or> 16 + 8 * unat index + 8 \<le> j"
  shows "tx_buffer (transaction ctx') ! j = tx_buffer (transaction ctx) ! j \<and>
         length (tx_buffer (transaction ctx')) = length (tx_buffer (transaction ctx)) \<and>
         16 + 8 * unat index + 8 \<le> length (tx_buffer (transaction ctx)) \<and>
         slot_offset index = 16 + 8 * unat index"
proof -
  from set_pixel_ok_D [OF assms(2)]
  have idx: "index < strip_length ctx"
    and ctx': "ctx' = fst (snd (hd108_lld_set_pixel ctx index pixel))" by simp_all
  have buf: "tx_buffer (transaction ctx') =
      hd108_lld_copy_pixel (pixel_raw (pixel\<lparr>cl_unit := cl_unit pixel OR 0x8000\<rparr>))
        (tx_buffer (transaction ctx)) (slot_offset index)"
    unfolding ctx' by (simp add: set_pixel_in_range [OF idx])
  have out: "j < slot_offset index \<or> slot_offset index + 8 \<le> j"
    using assms(3) by (simp add: slot_offset_eq)
  have same: "tx_buffer (transaction ctx') ! j = tx_buffer (transaction ctx) ! j"
    unfolding buf by (rule copy_pixel_outside [OF out])
  have len: "length (tx_buffer (transaction ctx')) = length (tx_buffer (transaction ctx))"
    unfolding buf by (rule copy_pixel_length)
  show ?thesis
    using slot_in_buffer [OF assms(1) idx] same len
    by (simp add: slot_offset_eq)
qed

theorem set_pixel_frame_witness:
  "buffer_fits sample_ctx \<and>
   hd108_lld_set_pixel sample_ctx 1 sample_pixel =
     (HD108_LLD_OK, sample_ctx_written, sample_pixel_started) \<and>
   ((23::nat) < 16 + 8 * unat (1 :: u16) \<or> 16 + 8 * unat (1 :: u16) + 8 \<le> (23::nat)) \<and>
   tx_buffer (transaction sample_ctx_written) ! 23 = tx_buffer (transaction sample_ctx) ! 23 \<and>
   tx_buffer (transaction sample_ctx) ! 23 = 8 \<and>
   length (tx_buffer (transaction sample_ctx_written)) = length (tx_buffer (transaction sample_ctx))"
proof -
  have out: "(23::nat) < 16 + 8 * unat (1 :: u16) \<or> 16 + 8 * unat (1 :: u16) + 8 \<le> (23::nat)"
    by simp
  have v: "tx_buffer (transaction sample_ctx) ! 23 = 8" by code_simp
  from set_pixel_frame [OF sample_ctx_fits sample_run out] sample_ctx_fits sample_run out v
  show ?thesis by blast
qed

lemma start_bit_idle: "w OR 0x8000 = w \<longleftrightarrow> bit w 15" for w :: u16
proof
  assume "w OR 0x8000 = w"
  moreover have "bit (w OR 0x8000) 15"
    by (simp only: bit_or_iff bit_start_mask simp_thms)
  ultimately show "bit w 15" by simp
next
  assume "bit w 15"
  then show "w OR 0x8000 = w"
    by (intro bit_word_eqI) (simp only: bit_or_iff bit_start_mask, auto)
qed

lemma sample_run_started:
  "hd108_lld_set_pixel sample_ctx 1 sample_pixel_started =
     (HD108_LLD_OK, sample_ctx_written, sample_pixel_started)"
  by code_simp

text \<open>
  Claim C10, as the specification states it, fails: the pixel is not changed by
  every call with an index in range. A pixel whose restricted bit is already set,
  such as one handed to \<open>hd108_lld_set_pixel\<close> a second time, comes back from a
  successful call exactly as it went in.
\<close>

theorem set_pixel_descriptor_counterexample:
  "(1 :: u16) < strip_length sample_ctx \<and>
   fst (hd108_lld_set_pixel sample_ctx 1 sample_pixel_started) = HD108_LLD_OK \<and>
   snd (snd (hd108_lld_set_pixel sample_ctx 1 sample_pixel_started)) = sample_pixel_started"
  by code_simp

text \<open>
  Claim C10, amended. \<open>hd108_lld_set_pixel\<close> writes to the caller's pixel: with
  an index in range the pixel comes back with its restricted bit (the start bit)
  set and nothing else changed, so the three current levels and the three colours
  are as before; with an index out of range the pixel comes back as it was. So
  the pixel's value changes exactly when the index is in range and the restricted
  bit was clear, and then in that bit only.
\<close>

theorem set_pixel_descriptor:
  assumes "hd108_lld_set_pixel ctx index pixel = (st, ctx', pixel')"
  shows "(index < strip_length ctx \<longrightarrow>
            restricted pixel' \<and>
            cl_red pixel' = cl_red pixel \<and> cl_green pixel' = cl_green pixel \<and>
            cl_blue pixel' = cl_blue pixel \<and>
            red pixel' = red pixel \<and> green pixel' = green pixel \<and> blue pixel' = blue pixel \<and>
            pixel' = pixel\<lparr>cl_unit := cl_unit pixel OR 0x8000\<rparr>) \<and>
         (strip_length ctx \<le> index \<longrightarrow> pixel' = pixel) \<and>
         (pixel' \<noteq> pixel \<longleftrightarrow> index < strip_length ctx \<and> \<not> restricted pixel)"
proof (cases "index < strip_length ctx")
  case True
  with assms have p: "pixel' = pixel\<lparr>cl_unit := cl_unit pixel OR 0x8000\<rparr>"
    by (simp add: set_pixel_in_range)
  have "bit (cl_unit pixel OR 0x8000) 15"
    by (simp only: bit_or_iff bit_start_mask simp_thms)
  then have fields: "restricted pixel' \<and>
      cl_red pixel' = cl_red pixel \<and> cl_green pixel' = cl_green pixel \<and>
      cl_blue pixel' = cl_blue pixel \<and>
      red pixel' = red pixel \<and> green pixel' = green pixel \<and> blue pixel' = blue pixel"
    by (simp add: p restricted_def cl_red_def cl_green_def cl_blue_def cl_red_start
          cl_green_start cl_blue_start)
  have "pixel' = pixel \<longleftrightarrow> cl_unit pixel OR 0x8000 = cl_unit pixel"
    unfolding p by (cases pixel) simp
  then have changed: "pixel' \<noteq> pixel \<longleftrightarrow> \<not> restricted pixel"
    by (simp only: start_bit_idle restricted_def)
  from True have "\<not> strip_length ctx \<le> index" by simp
  with True fields p changed show ?thesis by blast
next
  case False
  then have "strip_length ctx \<le> index" by simp
  with assms False show ?thesis by (simp add: set_pixel_out_of_range)
qed

theorem set_pixel_descriptor_witness:
  "hd108_lld_set_pixel sample_ctx 1 sample_pixel =
     (HD108_LLD_OK, sample_ctx_written, sample_pixel_started) \<and>
   (1 :: u16) < strip_length sample_ctx \<and>
   \<not> restricted sample_pixel \<and> restricted sample_pixel_started \<and>
   sample_pixel_started \<noteq> sample_pixel \<and>
   cl_red sample_pixel_started = cl_red sample_pixel \<and>
   cl_green sample_pixel_started = cl_green sample_pixel \<and>
   cl_blue sample_pixel_started = cl_blue sample_pixel \<and>
   red sample_pixel_started = red sample_pixel \<and>
   green sample_pixel_started = green sample_pixel \<and>
   blue sample_pixel_started = blue sample_pixel \<and>
   hd108_lld_set_pixel sample_ctx 1 sample_pixel_started =
     (HD108_LLD_OK, sample_ctx_written, sample_pixel_started) \<and>
   hd108_lld_set_pixel sample_ctx 2 sample_pixel =
     (HD108_LLD_ERROR_INDEX, sample_ctx, sample_pixel) \<and>
   strip_length sample_ctx \<le> 2"
proof -
  have lt: "(1 :: u16) < strip_length sample_ctx" by code_simp
  have le: "strip_length sample_ctx \<le> 2" by code_simp
  have before: "\<not> restricted sample_pixel" by code_simp
  have out: "hd108_lld_set_pixel sample_ctx 2 sample_pixel =
     (HD108_LLD_ERROR_INDEX, sample_ctx, sample_pixel)" by code_simp
  from set_pixel_descriptor [OF sample_run] set_pixel_descriptor [OF sample_run_started]
    set_pixel_descriptor [OF out] lt le before sample_run sample_run_started out
  show ?thesis by blast
qed

section \<open>Rejected and accepted configurations\<close>

text \<open>
  Claim C7. A strip length of 0 or above 1024 makes \<open>hd108_lld_init\<close> return the
  length error with no context stored and no call made to the allocator or to any
  other service. The check is the first one: the result is the same whatever the
  bus speed, the callback, the frequency and the environment are.
\<close>

theorem init_length_error:
  assumes "unat (count cfg) = 0 \<or> 1024 < unat (count cfg)"
  shows "hd108_lld_init cfg env =
           \<lparr>status = HD108_LLD_ERROR_LENGTH, ctx_out = None, calls = []\<rparr>"
  using assms by (simp add: hd108_lld_init_def length_check_iff init_fail_def)

theorem init_length_error_witness:
  "(unat (count oversize_cfg) = 0 \<or> 1024 < unat (count oversize_cfg)) \<and>
   40000000 < unat (spi_speed_hz oversize_cfg) \<and> update_function oversize_cfg = NULL \<and>
   hd108_lld_init oversize_cfg sample_env =
     \<lparr>status = HD108_LLD_ERROR_LENGTH, ctx_out = None, calls = []\<rparr> \<and>
   (unat (count (sample_cfg\<lparr>count := 0\<rparr>)) = 0 \<or> 1024 < unat (count (sample_cfg\<lparr>count := 0\<rparr>))) \<and>
   hd108_lld_init (sample_cfg\<lparr>count := 0\<rparr>) sample_env =
     \<lparr>status = HD108_LLD_ERROR_LENGTH, ctx_out = None, calls = []\<rparr>"
proof -
  have big: "unat (count oversize_cfg) = 0 \<or> 1024 < unat (count oversize_cfg)"
    by (simp add: oversize_cfg_def)
  have other: "40000000 < unat (spi_speed_hz oversize_cfg)" "update_function oversize_cfg = NULL"
    by (simp_all add: oversize_cfg_def)
  have zero: "unat (count (sample_cfg\<lparr>count := 0\<rparr>)) = 0 \<or>
      1024 < unat (count (sample_cfg\<lparr>count := 0\<rparr>))"
    by simp
  from init_length_error [OF big, of sample_env] init_length_error [OF zero, of sample_env]
    big other zero
  show ?thesis by blast
qed

text \<open>
  Claim C8. With a strip length from 1 to 1024, a bus speed of at most 40 MHz and
  a null update callback, \<open>hd108_lld_init\<close> returns the invalid-configuration
  error, stores no context and has made no call: nothing was allocated.
\<close>

theorem init_null_callback:
  assumes "1 \<le> unat (count cfg)" and "unat (count cfg) \<le> 1024"
    and "unat (spi_speed_hz cfg) \<le> 40000000"
    and "update_function cfg = NULL"
  shows "hd108_lld_init cfg env =
           \<lparr>status = HD108_LLD_ERROR_INVALID, ctx_out = None, calls = []\<rparr>"
  using assms
  by (simp add: hd108_lld_init_def length_check_iff speed_check_iff init_fail_def)

theorem init_null_callback_witness:
  "1 \<le> unat (count (sample_cfg\<lparr>update_function := NULL\<rparr>)) \<and>
   unat (count (sample_cfg\<lparr>update_function := NULL\<rparr>)) \<le> 1024 \<and>
   unat (spi_speed_hz (sample_cfg\<lparr>update_function := NULL\<rparr>)) \<le> 40000000 \<and>
   update_function (sample_cfg\<lparr>update_function := NULL\<rparr>) = NULL \<and>
   hd108_lld_init (sample_cfg\<lparr>update_function := NULL\<rparr>) sample_env =
     \<lparr>status = HD108_LLD_ERROR_INVALID, ctx_out = None, calls = []\<rparr>"
proof -
  have h: "1 \<le> unat (count (sample_cfg\<lparr>update_function := NULL\<rparr>))"
    "unat (count (sample_cfg\<lparr>update_function := NULL\<rparr>)) \<le> 1024"
    "unat (spi_speed_hz (sample_cfg\<lparr>update_function := NULL\<rparr>)) \<le> 40000000"
    "update_function (sample_cfg\<lparr>update_function := NULL\<rparr>) = NULL"
    by (simp_all add: sample_cfg_def)
  from init_null_callback [OF h, of sample_env] h show ?thesis by blast
qed

text \<open>
  Claim C2. With a strip length \<open>L\<close> from 1 to 1024, a frequency \<open>F\<close> of the
  enumeration, a bus speed of at most 40 MHz and a callback that is not null,
  \<open>hd108_lld_init\<close> returns something other than the data-rate error exactly when
  \<open>(16 + 8 * L) * 8 * F * 2\<close>, computed without wrap-around, is at most the bus
  speed.
\<close>

theorem init_data_rate_check:
  assumes "1 \<le> unat (count cfg)" and "unat (count cfg) \<le> 1024"
    and "unat (spi_speed_hz cfg) \<le> 40000000"
    and "update_function cfg \<noteq> NULL"
  shows "status (hd108_lld_init cfg env) \<noteq> HD108_LLD_ERROR_DATA_RATE \<longleftrightarrow>
           (16 + 8 * unat (count cfg)) * 8 * unat (freq_value (frequency_hz cfg)) * 2
             \<le> unat (spi_speed_hz cfg)"
proof -
  have bl: "unat (ucast (HD108_LLD_NUM_OF_0S + ucast (count cfg) * sizeof_hd108_pixel_t) :: u16)
      = 16 + 8 * unat (count cfg)"
    using assms(2) by (rule buffer_len_unat)
  then have "unat (ucast (HD108_LLD_NUM_OF_0S + ucast (count cfg) * sizeof_hd108_pixel_t) :: u16)
      \<le> 8208"
    using assms(2) by simp
  then have rate: "unat (ucast (ucast (HD108_LLD_NUM_OF_0S + ucast (count cfg) *
        sizeof_hd108_pixel_t) :: u16) * 8 * freq_value (frequency_hz cfg) * 2 :: u32) =
      (16 + 8 * unat (count cfg)) * 8 * unat (freq_value (frequency_hz cfg)) * 2"
    by (simp only: rate_unat bl)
  have checks: "\<not> (HD108_LLD_MIN_COUNT > ucast (count cfg) \<or>
      HD108_LLD_MAX_COUNT < ucast (count cfg))"
    "\<not> HD108_LLD_MAX_SPI_SPEED < spi_speed_hz cfg" "NULL \<noteq> update_function cfg"
    using assms by (simp_all add: length_check_iff speed_check_iff)
  have "status (hd108_lld_init cfg env) = HD108_LLD_ERROR_DATA_RATE \<longleftrightarrow>
      spi_speed_hz cfg < ucast (ucast (HD108_LLD_NUM_OF_0S + ucast (count cfg) *
        sizeof_hd108_pixel_t) :: u16) * 8 * freq_value (frequency_hz cfg) * 2"
    unfolding init_data_rate_iff using checks by blast
  then have "status (hd108_lld_init cfg env) = HD108_LLD_ERROR_DATA_RATE \<longleftrightarrow>
      unat (spi_speed_hz cfg) <
        (16 + 8 * unat (count cfg)) * 8 * unat (freq_value (frequency_hz cfg)) * 2"
    by (simp only: word_less_nat_alt rate)
  then show ?thesis
    by (simp only: not_less [symmetric] simp_thms)
qed

theorem init_data_rate_check_witness:
  "1 \<le> unat (count sample_cfg) \<and> unat (count sample_cfg) \<le> 1024 \<and>
   unat (spi_speed_hz sample_cfg) \<le> 40000000 \<and> update_function sample_cfg \<noteq> NULL \<and>
   status (hd108_lld_init sample_cfg sample_env) \<noteq> HD108_LLD_ERROR_DATA_RATE \<and>
   (16 + 8 * unat (count sample_cfg)) * 8 * unat (freq_value (frequency_hz sample_cfg)) * 2
      \<le> unat (spi_speed_hz sample_cfg) \<and>
   1 \<le> unat (count slow_cfg) \<and> unat (count slow_cfg) \<le> 1024 \<and>
   unat (spi_speed_hz slow_cfg) \<le> 40000000 \<and> update_function slow_cfg \<noteq> NULL \<and>
   status (hd108_lld_init slow_cfg sample_env) = HD108_LLD_ERROR_DATA_RATE \<and>
   \<not> (16 + 8 * unat (count slow_cfg)) * 8 * unat (freq_value (frequency_hz slow_cfg)) * 2
      \<le> unat (spi_speed_hz slow_cfg)"
proof -
  have a: "1 \<le> unat (count sample_cfg)" "unat (count sample_cfg) \<le> 1024"
    "unat (spi_speed_hz sample_cfg) \<le> 40000000" "update_function sample_cfg \<noteq> NULL"
    by (simp_all add: sample_cfg_def NULL_def)
  have b: "1 \<le> unat (count slow_cfg)" "unat (count slow_cfg) \<le> 1024"
    "unat (spi_speed_hz slow_cfg) \<le> 40000000" "update_function slow_cfg \<noteq> NULL"
    by (simp_all add: slow_cfg_def NULL_def)
  have ra: "(16 + 8 * unat (count sample_cfg)) * 8 * unat (freq_value (frequency_hz sample_cfg)) * 2
      \<le> unat (spi_speed_hz sample_cfg)"
    by (simp add: sample_cfg_def)
  have rb: "\<not> (16 + 8 * unat (count slow_cfg)) * 8 * unat (freq_value (frequency_hz slow_cfg)) * 2
      \<le> unat (spi_speed_hz slow_cfg)"
    by (simp add: slow_cfg_def)
  from init_data_rate_check [OF a, of sample_env] init_data_rate_check [OF b, of sample_env]
    a b ra rb
  show ?thesis by blast
qed

section \<open>The slot of the sample pixel\<close>

lemma sample_word0: "(0x8000 :: u16) OR push_bit 10 3 OR push_bit 5 7 OR 15 = 0x8CEF"
  by code_simp

lemma sample_msb_first:
  "msb_first 0x8CEF @ msb_first 0x1234 @ msb_first 0x5678 @ msb_first 0x9ABC =
     [0x8C, 0xEF, 0x12, 0x34, 0x56, 0x78, 0x9A, 0xBC]"
  by code_simp

text \<open>
  Claim C3, as the specification states it, fails: for the pixel with current
  levels red 3, green 7, blue 15 and colours 0x1234, 0x5678, 0x9ABC the slot
  written is not \<open>[0xEF, 0x8D, 0x34, 0x12, 0x78, 0x56, 0xBC, 0x9A]\<close>. The first
  word is 0x8CEF, not 0x8DEF, and each word goes out with its high byte first.
\<close>

theorem sample_slot_counterexample:
  "cl_red sample_pixel = 3 \<and> cl_green sample_pixel = 7 \<and> cl_blue sample_pixel = 15 \<and>
   red sample_pixel = 0x1234 \<and> green sample_pixel = 0x5678 \<and> blue sample_pixel = 0x9ABC \<and>
   fst (hd108_lld_set_pixel sample_ctx 1 sample_pixel) = HD108_LLD_OK \<and>
   slot_bytes (tx_buffer (transaction (fst (snd (hd108_lld_set_pixel sample_ctx 1 sample_pixel))))) 1
     \<noteq> [0xEF, 0x8D, 0x34, 0x12, 0x78, 0x56, 0xBC, 0x9A]"
  by code_simp

text \<open>
  Claim C3, amended. For a pixel with current levels red 3, green 7, blue 15 and
  colours red 0x1234, green 0x5678, blue 0x9ABC, whatever its restricted bit, the
  slot written by a successful \<open>hd108_lld_set_pixel\<close> is exactly
  \<open>[0x8C, 0xEF, 0x12, 0x34, 0x56, 0x78, 0x9A, 0xBC]\<close>: the word
  \<open>0x8000 | (3 << 10) | (7 << 5) | 15 = 0x8CEF\<close> and the three colour words, each
  with its most significant byte first.
\<close>

theorem sample_slot:
  assumes "buffer_fits ctx"
    and "hd108_lld_set_pixel ctx index pixel = (HD108_LLD_OK, ctx', pixel')"
    and "cl_red pixel = 3" and "cl_green pixel = 7" and "cl_blue pixel = 15"
    and "red pixel = 0x1234" and "green pixel = 0x5678" and "blue pixel = 0x9ABC"
  shows "slot_bytes (tx_buffer (transaction ctx')) index =
           [0x8C, 0xEF, 0x12, 0x34, 0x56, 0x78, 0x9A, 0xBC]"
proof -
  from set_pixel_ok_D [OF assms(2)]
  have idx: "index < strip_length ctx"
    and ctx': "ctx' = fst (snd (hd108_lld_set_pixel ctx index pixel))" by simp_all
  have "cl_unit pixel OR 0x8000 =
      0x8000 OR push_bit 10 (cl_red pixel) OR push_bit 5 (cl_green pixel) OR cl_blue pixel"
    unfolding cl_red_def cl_green_def cl_blue_def by (rule word0_fields [symmetric])
  then have w0: "cl_unit pixel OR 0x8000 = 0x8CEF"
    by (simp only: assms(3-5) sample_word0)
  have "slot_bytes (tx_buffer (transaction ctx')) index =
           msb_first (cl_unit pixel OR 0x8000) @ msb_first (red pixel) @
           msb_first (green pixel) @ msb_first (blue pixel)"
    unfolding ctx' by (rule set_pixel_slot [OF assms(1) idx])
  then show ?thesis
    by (simp only: w0 assms(6-8) sample_msb_first)
qed

theorem sample_slot_witness:
  "buffer_fits sample_ctx \<and>
   hd108_lld_set_pixel sample_ctx 1 sample_pixel =
     (HD108_LLD_OK, sample_ctx_written, sample_pixel_started) \<and>
   cl_red sample_pixel = 3 \<and> cl_green sample_pixel = 7 \<and> cl_blue sample_pixel = 15 \<and>
   red sample_pixel = 0x1234 \<and> green sample_pixel = 0x5678 \<and> blue sample_pixel = 0x9ABC \<and>
   slot_bytes (tx_buffer (transaction sample_ctx_written)) 1 =
     [0x8C, 0xEF, 0x12, 0x34, 0x56, 0x78, 0x9A, 0xBC]"
proof -
  have f: "cl_red sample_pixel = 3" "cl_green sample_pixel = 7" "cl_blue sample_pixel = 15"
    "red sample_pixel = 0x1234" "green sample_pixel = 0x5678" "blue sample_pixel = 0x9ABC"
    by code_simp+
  from sample_slot [OF sample_ctx_fits sample_run f] sample_ctx_fits sample_run f
  show ?thesis by blast
qed

section \<open>The leading zero bytes\<close>

lemma sample_init_ok: "status (hd108_lld_init sample_cfg sample_env) = HD108_LLD_OK"
  by code_simp

text \<open>
  Claim C6. When \<open>hd108_lld_init\<close> succeeds it stores a context whose buffer
  starts with 16 zero bytes, and these stay zero after any sequence of
  \<open>hd108_lld_set_pixel\<close> calls on that context: the offset computed for any
  index is at least 16.
\<close>

theorem init_padding_zero:
  assumes "status (hd108_lld_init cfg env) = HD108_LLD_OK"
  shows "\<exists>ctx. ctx_out (hd108_lld_init cfg env) = Some ctx \<and>
           take 16 (tx_buffer (transaction ctx)) = replicate 16 0 \<and>
           (\<forall>ups. take 16 (tx_buffer (transaction (set_pixels ctx ups))) = replicate 16 0) \<and>
           (\<forall>index. 16 \<le> slot_offset index)"
proof -
  from init_ok_result [OF assms] obtain ctx where
    out: "ctx_out (hd108_lld_init cfg env) = Some ctx"
    and buf: "tx_buffer (transaction ctx) = replicate (16 + 8 * unat (count cfg)) 0"
    by simp
  have pad: "take 16 (tx_buffer (transaction ctx)) = replicate 16 0"
    by (simp add: buf)
  have "\<forall>ups. take 16 (tx_buffer (transaction (set_pixels ctx ups))) = replicate 16 0"
    by (simp only: set_pixels_padding pad simp_thms)
  moreover have "\<forall>index. 16 \<le> slot_offset index"
    by (simp add: slot_offset_eq)
  ultimately show ?thesis using out pad by blast
qed

theorem init_padding_zero_witness:
  "status (hd108_lld_init sample_cfg sample_env) = HD108_LLD_OK \<and>
   (\<exists>ctx. ctx_out (hd108_lld_init sample_cfg sample_env) = Some ctx \<and>
           take 16 (tx_buffer (transaction ctx)) = replicate 16 0 \<and>
           (\<forall>ups. take 16 (tx_buffer (transaction (set_pixels ctx ups))) = replicate 16 0) \<and>
           (\<forall>index. 16 \<le> slot_offset index))"
  using init_padding_zero [OF sample_init_ok] sample_init_ok by blast

section \<open>The timer period\<close>

lemma sample_timer_started:
  "Esp_timer_start_periodic 16666 \<in> set (calls (hd108_lld_init sample_cfg sample_env))"
  by code_simp

text \<open>
  Claim C9, as the specification states it, fails in its second half: at 24 Hz
  the period is 41666 microseconds, and 24 periods are not a second. The division
  leaves a remainder.
\<close>

theorem timer_period_counterexample:
  "unat (hd108_get_update_period_time HD108_LLD_UPDATE_24HZ) = 41666 \<and>
   unat (hd108_get_update_period_time HD108_LLD_UPDATE_24HZ) *
     unat (freq_value HD108_LLD_UPDATE_24HZ) \<noteq> 1000000"
  by (simp add: hd108_get_update_period_time_def unat_div)

text \<open>
  Claim C9, amended. For every frequency \<open>F\<close> of the enumeration the period is
  \<open>1000000 div F\<close> microseconds, the truncating quotient; the division is exact
  for 1, 2, 5, 10, 20, 25, 50 and 100 Hz and leaves a remainder for 24, 30, 60 and
  120 Hz. Every periodic timer that \<open>hd108_lld_init\<close> starts gets the period of
  the configured frequency.
\<close>

theorem timer_period_truncating:
  "unat (hd108_get_update_period_time f) = 1000000 div unat (freq_value f) \<and>
   (1000000 mod unat (freq_value f) = 0 \<longleftrightarrow>
      f \<notin> {HD108_LLD_UPDATE_24HZ, HD108_LLD_UPDATE_30HZ, HD108_LLD_UPDATE_60HZ,
            HD108_LLD_UPDATE_120HZ}) \<and>
   (Esp_timer_start_periodic t \<in> set (calls (hd108_lld_init cfg env)) \<longrightarrow>
      t = hd108_get_update_period_time (frequency_hz cfg))"
proof -
  have "unat (hd108_get_update_period_time f) = 1000000 div unat (freq_value f)"
    by (simp add: hd108_get_update_period_time_def unat_div)
  moreover have "1000000 mod unat (freq_value f) = 0 \<longleftrightarrow>
      f \<notin> {HD108_LLD_UPDATE_24HZ, HD108_LLD_UPDATE_30HZ, HD108_LLD_UPDATE_60HZ,
            HD108_LLD_UPDATE_120HZ}"
    by (cases f) simp_all
  ultimately show ?thesis
    using init_timer_periods [of t cfg env] by blast
qed

theorem timer_period_truncating_witness:
  "Esp_timer_start_periodic 16666 \<in> set (calls (hd108_lld_init sample_cfg sample_env)) \<and>
   (16666 :: u32) = hd108_get_update_period_time (frequency_hz sample_cfg) \<and>
   unat (hd108_get_update_period_time (frequency_hz sample_cfg)) =
     1000000 div unat (freq_value (frequency_hz sample_cfg)) \<and>
   \<not> 1000000 mod unat (freq_value (frequency_hz sample_cfg)) = 0"
proof -
  have f: "frequency_hz sample_cfg \<in> {HD108_LLD_UPDATE_24HZ, HD108_LLD_UPDATE_30HZ,
      HD108_LLD_UPDATE_60HZ, HD108_LLD_UPDATE_120HZ}"
    by (simp add: sample_cfg_def)
  from timer_period_truncating [of "frequency_hz sample_cfg" 16666 sample_cfg sample_env]
    sample_timer_started f
  show ?thesis by blast
qed

end
